theory Spec2Isabelle
  imports Main "HOL-Library.Word"
begin

section \<open>Data model\<close>

text \<open>
  A \<open>web3.PublicKey\<close> is built from its base58 text (\<open>new web3.PublicKey('...')\<close>)
  and printed back with \<open>toString()\<close>; the model keeps that text.
\<close>

datatype PublicKey = PublicKey string

fun toString :: "PublicKey \<Rightarrow> string" where
  "toString (PublicKey s) = s"

text \<open>\<open>web3.SystemProgram.programId\<close>, the System Program's address.\<close>

definition SystemProgram_programId :: PublicKey where
  "SystemProgram_programId = PublicKey ''11111111111111111111111111111111''"

text \<open>\<open>web3.AccountMeta\<close> and \<open>web3.TransactionInstruction\<close>.\<close>

record AccountMeta =
  pubkey :: PublicKey
  isWritable :: bool
  isSigner :: bool

record TransactionInstruction =
  programId :: PublicKey
  keys :: "AccountMeta list"
  data :: "8 word list"

text \<open>An exception that is thrown is a value: the result of a call that may throw
  is \<open>Inl\<close> of the exception or \<open>Inr\<close> of what it returns.\<close>

datatype Error = Error string

section \<open>The generated builder of AddCollectionConstraintToEscrowConstraintModel\<close>

subsection \<open>Accounts and arguments\<close>

text \<open>
  The accounts of the instruction; \<open>systemProgram\<close> is the one optional field
  (\<open>systemProgram?: web3.PublicKey\<close>).
\<close>

record AddCollectionConstraintToEscrowConstraintModelInstructionAccounts =
  acc_constraintModel :: PublicKey
  acc_payer :: PublicKey
  updateAuthority :: PublicKey
  collectionMint :: PublicKey
  collectionMintMetadata :: PublicKey
  systemProgram :: "PublicKey option"
  sysvarInstructions :: PublicKey

text \<open>
  A value found under a property at run time: an integer number, or anything else
  (a fraction, \<open>NaN\<close>, \<open>undefined\<close>, a string, an object).
\<close>

datatype 'v js_value = JSInt int | JSOther 'v

text \<open>
  The instruction arguments. The declared type has the one field
  \<open>addCollectionConstraintToEscrowConstraintModelArgs\<close>; its type and its
  serializer are declared in \<open>../types\<close>, so the type is a type variable. An object
  of a wider type is accepted where the declared type is asked for, so the
  arguments may also carry a property \<open>instructionDiscriminator\<close> of their own:
  \<open>None\<close> when they have none, as the declared type has it.
\<close>

record ('a, 'v) AddCollectionConstraintToEscrowConstraintModelInstructionArgs =
  addCollectionConstraintToEscrowConstraintModelArgs :: 'a
  instructionDiscriminator :: "'v js_value option"

definition addCollectionConstraintToEscrowConstraintModelInstructionDiscriminator :: int where
  "addCollectionConstraintToEscrowConstraintModelInstructionDiscriminator = 5"

subsection \<open>Serialization\<close>

text \<open>
  The object given to \<open>serialize\<close> is \<open>{ instructionDiscriminator: d, ...args }\<close>: the
  properties of \<open>args\<close> are copied after the discriminator is set, so a property
  \<open>instructionDiscriminator\<close> of \<open>args\<close> replaces it.
\<close>

record ('a, 'v) AddCollectionConstraintToEscrowConstraintModelStructArgs =
  struct_instructionDiscriminator :: "'v js_value"
  struct_addCollectionConstraintToEscrowConstraintModelArgs :: 'a

definition spread_args ::
  "int \<Rightarrow> ('a, 'v) AddCollectionConstraintToEscrowConstraintModelInstructionArgs
     \<Rightarrow> ('a, 'v) AddCollectionConstraintToEscrowConstraintModelStructArgs" where
  "spread_args d args =
     \<lparr>struct_instructionDiscriminator =
        (case instructionDiscriminator args of None \<Rightarrow> JSInt d | Some v \<Rightarrow> v),
      struct_addCollectionConstraintToEscrowConstraintModelArgs =
        addCollectionConstraintToEscrowConstraintModelArgs args\<rparr>"

text \<open>
  \<open>beet.u8\<close> writes its value as one byte with \<open>writeUInt8\<close>, which throws a range
  error for a number outside 0..255. What it does with a value that is not an integer
  is the parameter \<open>u8_other\<close>.
\<close>

definition beet_u8_write :: "('v \<Rightarrow> Error + 8 word) \<Rightarrow> 'v js_value \<Rightarrow> Error + 8 word" where
  "beet_u8_write u8_other v =
     (case v of
        JSInt n \<Rightarrow>
          (if 0 \<le> n \<and> n \<le> 255 then Inr (word_of_int n)
           else Inl (Error ''ERR_OUT_OF_RANGE''))
      | JSOther x \<Rightarrow> u8_other x)"

text \<open>
  \<open>AddCollectionConstraintToEscrowConstraintModelStruct.serialize\<close>, a
  \<open>beet.FixableBeetArgsStruct\<close> of the two fields \<open>instructionDiscriminator\<close>
  (\<open>beet.u8\<close>) and the arguments, in this order. The serializer of the arguments is
  the parameter \<open>argsBeet\<close>: from the value it fixes its size and gives the writer,
  or throws; the writer gives the bytes, or throws. \<open>serialize\<close> first fixes the
  sizes, then writes the fields in their order; nothing catches what is thrown.
\<close>

definition AddCollectionConstraintToEscrowConstraintModelStruct_serialize ::
  "('v \<Rightarrow> Error + 8 word) \<Rightarrow> ('a \<Rightarrow> Error + ('a \<Rightarrow> Error + 8 word list))
     \<Rightarrow> ('a, 'v) AddCollectionConstraintToEscrowConstraintModelStructArgs
     \<Rightarrow> Error + 8 word list" where
  "AddCollectionConstraintToEscrowConstraintModelStruct_serialize u8_other argsBeet obj =
     (case argsBeet (struct_addCollectionConstraintToEscrowConstraintModelArgs obj) of
        Inl e \<Rightarrow> Inl e
      | Inr write_args \<Rightarrow>
          (case beet_u8_write u8_other (struct_instructionDiscriminator obj) of
             Inl e \<Rightarrow> Inl e
           | Inr b \<Rightarrow>
               (case write_args (struct_addCollectionConstraintToEscrowConstraintModelArgs obj) of
                  Inl e \<Rightarrow> Inl e
                | Inr bytes \<Rightarrow> Inr (b # bytes))))"

subsection \<open>The builder\<close>

text \<open>
  \<open>programId\<close> is a parameter with a default, so the caller's value is optional;
  \<open>accounts.systemProgram ?? web3.SystemProgram.programId\<close> is the \<open>case\<close> on the
  optional field. The data are serialized first: when \<open>serialize\<close> throws, the
  builder throws and no instruction is made.
\<close>

definition createAddCollectionConstraintToEscrowConstraintModelInstruction ::
  "('v \<Rightarrow> Error + 8 word) \<Rightarrow> ('a \<Rightarrow> Error + ('a \<Rightarrow> Error + 8 word list))
     \<Rightarrow> AddCollectionConstraintToEscrowConstraintModelInstructionAccounts
     \<Rightarrow> ('a, 'v) AddCollectionConstraintToEscrowConstraintModelInstructionArgs
     \<Rightarrow> PublicKey option \<Rightarrow> Error + TransactionInstruction" where
  "createAddCollectionConstraintToEscrowConstraintModelInstruction u8_other argsBeet accounts args programId_opt =
     (let programId' = (case programId_opt of
                          None \<Rightarrow> PublicKey ''trifMWutwBxkSuatmpPVnEe7NoE3BJKgjVi8sSyoXWX''
                        | Some p \<Rightarrow> p)
      in case AddCollectionConstraintToEscrowConstraintModelStruct_serialize u8_other argsBeet
                (spread_args addCollectionConstraintToEscrowConstraintModelInstructionDiscriminator args) of
           Inl e \<Rightarrow> Inl e
         | Inr data' \<Rightarrow>
             (let keys' =
                [\<lparr>pubkey = acc_constraintModel accounts, isWritable = True, isSigner = False\<rparr>,
                 \<lparr>pubkey = acc_payer accounts, isWritable = True, isSigner = True\<rparr>,
                 \<lparr>pubkey = updateAuthority accounts, isWritable = False, isSigner = True\<rparr>,
                 \<lparr>pubkey = collectionMint accounts, isWritable = False, isSigner = False\<rparr>,
                 \<lparr>pubkey = collectionMintMetadata accounts, isWritable = False, isSigner = False\<rparr>,
                 \<lparr>pubkey = (case systemProgram accounts of
                              None \<Rightarrow> SystemProgram_programId
                            | Some p \<Rightarrow> p),
                  isWritable = False, isSigner = False\<rparr>,
                 \<lparr>pubkey = sysvarInstructions accounts, isWritable = False, isSigner = False\<rparr>]
              in Inr \<lparr>programId = programId', keys = keys', data = data'\<rparr>))"

section \<open>The escrow helpers (helpers/toe.ts)\<close>

subsection \<open>Values the helpers handle\<close>

text \<open>\<open>web3.Keypair\<close>: the signing identity.\<close>

record Keypair =
  publicKey :: PublicKey
  secretKey :: "8 word list"

text \<open>
  The token handles of the metaplex client, with the fields the helpers read:
  \<open>mint.address\<close>, \<open>metadataAddress\<close>, \<open>token.address\<close> and, for an NFT only,
  \<open>edition.address\<close>. A parameter of type \<open>NftWithToken | SftWithToken\<close> is any
  extension of \<open>SftWithToken\<close>.
\<close>

record SftWithToken =
  mint_address :: PublicKey
  metadataAddress :: PublicKey
  token_address :: PublicKey

record NftWithToken = SftWithToken +
  edition_address :: PublicKey

text \<open>The objects passed to the two instruction builders, as the helpers write them.\<close>

record CreateEscrowAccountInstructionAccounts =
  escrow :: PublicKey
  metadata :: PublicKey
  mint :: PublicKey
  edition :: PublicKey
  payer :: PublicKey
  escrowConstraintModel :: "PublicKey option"

record TransferIntoEscrowInstructionAccounts =
  ti_escrow :: PublicKey
  ti_payer :: PublicKey
  attributeMint :: PublicKey
  attributeSrc :: PublicKey
  attributeDst :: PublicKey
  attributeMetadata :: PublicKey
  escrowMint :: PublicKey
  escrowAccount :: PublicKey
  constraintModel :: PublicKey

record TransferIntoEscrowArgs =
  amount :: int
  index :: int

record TransferIntoEscrowInstructionArgs =
  transferIntoEscrowArgs :: TransferIntoEscrowArgs

text \<open>\<open>web3.Transaction\<close>: \<open>new Transaction()\<close> and \<open>add\<close>.\<close>

record Transaction =
  instructions :: "TransactionInstruction list"
  recentBlockhash :: "string option"
  feePayer :: "PublicKey option"

definition new_Transaction :: Transaction where
  "new_Transaction = \<lparr>instructions = [], recentBlockhash = None, feePayer = None\<rparr>"

definition Transaction_add :: "Transaction \<Rightarrow> TransactionInstruction \<Rightarrow> Transaction" where
  "Transaction_add tx ix = tx\<lparr>instructions := instructions tx @ [ix]\<rparr>"

subsection \<open>The network and the console\<close>

text \<open>
  The helpers reach the outside through \<open>connection.getLatestBlockhash\<close>,
  \<open>connection.sendTransaction\<close> and \<open>console.log\<close>; the world records every such
  call in order, and a connection answers a request from the requests made before
  it, with a value or with the exception it throws.
\<close>

record BlockhashWithExpiryBlockHeight =
  blockhash :: string
  lastValidBlockHeight :: nat

record SendOptions =
  skipPreflight :: bool

datatype rpc_call =
    GetLatestBlockhash
  | SendTransaction Transaction "Keypair list" "SendOptions option"

datatype console_line = LogString string | LogTransaction Transaction

record World =
  rpcCalls :: "rpc_call list"
  console :: "console_line list"

record Connection =
  blockhashReply :: "rpc_call list \<Rightarrow> Error + BlockhashWithExpiryBlockHeight"
  sendReply :: "rpc_call list \<Rightarrow> Transaction \<Rightarrow> Keypair list \<Rightarrow> SendOptions option
                  \<Rightarrow> Error + string"

definition getLatestBlockhash ::
  "Connection \<Rightarrow> World \<Rightarrow> (Error + BlockhashWithExpiryBlockHeight) \<times> World" where
  "getLatestBlockhash connection w =
     (blockhashReply connection (rpcCalls w),
      w\<lparr>rpcCalls := rpcCalls w @ [GetLatestBlockhash]\<rparr>)"

definition sendTransaction ::
  "Connection \<Rightarrow> Transaction \<Rightarrow> Keypair list \<Rightarrow> SendOptions option \<Rightarrow> World
     \<Rightarrow> (Error + string) \<times> World" where
  "sendTransaction connection tx signers options w =
     (sendReply connection (rpcCalls w) tx signers options,
      w\<lparr>rpcCalls := rpcCalls w @ [SendTransaction tx signers options]\<rparr>)"

definition console_log :: "console_line \<Rightarrow> World \<Rightarrow> World" where
  "console_log x w = w\<lparr>console := console w @ [x]\<rparr>"

subsection \<open>What the helpers import\<close>

text \<open>
  The functions the helpers call and the sources do not hold are parameters:
  the address derivation of \<open>@solana/web3.js\<close> with the seeds and the program
  identifier \<open>./pdas\<close> gives it, \<open>getAssociatedTokenAddress\<close> of \<open>@solana/spl-token\<close>
  (mint, owner, allowOwnerOffCurve) and the two generated instruction builders.
\<close>

record SDK =
  findProgramAddress :: "8 word list list \<Rightarrow> PublicKey \<Rightarrow> PublicKey \<times> nat"
  toeSeeds :: "PublicKey \<Rightarrow> 8 word list list"
  PROGRAM_ID :: PublicKey
  getAssociatedTokenAddress :: "PublicKey \<Rightarrow> PublicKey \<Rightarrow> bool \<Rightarrow> PublicKey"
  createCreateEscrowAccountInstruction ::
    "CreateEscrowAccountInstructionAccounts \<Rightarrow> TransactionInstruction"
  createTransferIntoEscrowInstruction ::
    "TransferIntoEscrowInstructionAccounts \<Rightarrow> TransferIntoEscrowInstructionArgs
       \<Rightarrow> TransactionInstruction"

text \<open>
  Modelled from the spec: \<open>findToePda\<close> of \<open>./pdas\<close> is not among the sources.
  The spec has the escrow account address as "a deterministically derived address
  (program-derived address) computed from the NFT mint's public key", and a
  program-derived address as "a deterministic address computed from seed values and a
  program identifier". The result is the pair of the address and its bump; the
  helper reads the address as component 0.
\<close>

definition findToePda :: "SDK \<Rightarrow> PublicKey \<Rightarrow> PublicKey \<times> nat" where
  "findToePda sdk mint' = findProgramAddress sdk (toeSeeds sdk mint') (PROGRAM_ID sdk)"

subsection \<open>createTOE\<close>

text \<open>
  The constant \<open>createIX\<close> of \<open>createTOE\<close>, and before it the object the helper
  passes to the builder.
\<close>

definition createTOE_accounts ::
  "SDK \<Rightarrow> NftWithToken \<Rightarrow> Keypair \<Rightarrow> CreateEscrowAccountInstructionAccounts" where
  "createTOE_accounts sdk nft keypair =
     (let escrowAccountAddress = findToePda sdk (mint_address nft)
      in \<lparr>escrow = fst escrowAccountAddress,
          metadata = metadataAddress nft,
          mint = mint_address nft,
          edition = edition_address nft,
          payer = publicKey keypair,
          escrowConstraintModel = None\<rparr>)"

definition createTOE_createIX :: "SDK \<Rightarrow> NftWithToken \<Rightarrow> Keypair \<Rightarrow> TransactionInstruction" where
  "createTOE_createIX sdk nft keypair =
     createCreateEscrowAccountInstruction sdk (createTOE_accounts sdk nft keypair)"

definition createTOE ::
  "SDK \<Rightarrow> Connection \<Rightarrow> NftWithToken \<Rightarrow> Keypair \<Rightarrow> World
     \<Rightarrow> (Error + PublicKey \<times> nat) \<times> World" where
  "createTOE sdk connection nft keypair w =
     (let escrowAccountAddress = findToePda sdk (mint_address nft);
          createIX = createTOE_createIX sdk nft keypair;
          tx = Transaction_add new_Transaction createIX
      in case getLatestBlockhash connection w of
           (Inl e, w1) \<Rightarrow> (Inl e, w1)
         | (Inr r, w1) \<Rightarrow>
             (let tx1 = tx\<lparr>recentBlockhash := Some (blockhash r)\<rparr>;
                  tx2 = tx1\<lparr>feePayer := Some (publicKey keypair)\<rparr>
              in case sendTransaction connection tx2 [keypair] None w1 of
                   (Inl e, w2) \<Rightarrow> (Inl e, w2)
                 | (Inr signature, w2) \<Rightarrow> (Inr escrowAccountAddress, w2)))"

subsection \<open>transferIn\<close>

text \<open>
  The constants \<open>dst\<close> and \<open>transferIX\<close> of \<open>transferIn\<close>, and the two objects the
  helper passes to the builder.
\<close>

definition transferIn_dst :: "SDK \<Rightarrow> PublicKey \<Rightarrow> 'a SftWithToken_scheme \<Rightarrow> PublicKey" where
  "transferIn_dst sdk escrowAccountAddress nft =
     getAssociatedTokenAddress sdk (mint_address nft) escrowAccountAddress True"

definition transferIn_accounts ::
  "SDK \<Rightarrow> NftWithToken \<Rightarrow> PublicKey \<Rightarrow> 'a SftWithToken_scheme \<Rightarrow> Keypair
     \<Rightarrow> TransferIntoEscrowInstructionAccounts" where
  "transferIn_accounts sdk escrowNft escrowAccountAddress nft keypair =
     \<lparr>ti_escrow = escrowAccountAddress,
      ti_payer = publicKey keypair,
      attributeMint = mint_address nft,
      attributeSrc = token_address nft,
      attributeDst = transferIn_dst sdk escrowAccountAddress nft,
      attributeMetadata = metadataAddress nft,
      escrowMint = mint_address escrowNft,
      escrowAccount = token_address escrowNft,
      constraintModel = PublicKey ''CjWwgEJUBdb2iYjZsDng5qkYRC8f3rQeqr4k1j9jExr5''\<rparr>"

definition transferIn_args :: TransferIntoEscrowInstructionArgs where
  "transferIn_args = \<lparr>transferIntoEscrowArgs = \<lparr>amount = 1, index = 1\<rparr>\<rparr>"

definition transferIn_transferIX ::
  "SDK \<Rightarrow> NftWithToken \<Rightarrow> PublicKey \<Rightarrow> 'a SftWithToken_scheme \<Rightarrow> Keypair
     \<Rightarrow> TransactionInstruction" where
  "transferIn_transferIX sdk escrowNft escrowAccountAddress nft keypair =
     createTransferIntoEscrowInstruction sdk
       (transferIn_accounts sdk escrowNft escrowAccountAddress nft keypair)
       transferIn_args"

definition transferIn ::
  "SDK \<Rightarrow> Connection \<Rightarrow> NftWithToken \<Rightarrow> PublicKey \<Rightarrow> 'a SftWithToken_scheme \<Rightarrow> Keypair
     \<Rightarrow> World \<Rightarrow> (Error + unit) \<times> World" where
  "transferIn sdk connection escrowNft escrowAccountAddress nft keypair w =
     (let dst = transferIn_dst sdk escrowAccountAddress nft;
          w1 = console_log (LogString ''dst:'') w;
          w2 = console_log (LogString (toString dst)) w1;
          transferIX = transferIn_transferIX sdk escrowNft escrowAccountAddress nft keypair;
          tx = Transaction_add new_Transaction transferIX
      in case getLatestBlockhash connection w2 of
           (Inl e, w3) \<Rightarrow> (Inl e, w3)
         | (Inr r, w3) \<Rightarrow>
             (let tx1 = tx\<lparr>recentBlockhash := Some (blockhash r)\<rparr>;
                  tx2 = tx1\<lparr>feePayer := Some (publicKey keypair)\<rparr>;
                  w4 = console_log (LogTransaction tx2) w3
              in case sendTransaction connection tx2 [keypair]
                        (Some \<lparr>skipPreflight = True\<rparr>) w4 of
                   (Inl e, w5) \<Rightarrow> (Inl e, w5)
                 | (Inr signature, w5) \<Rightarrow> (Inr (), w5)))"

subsection \<open>Reading a run\<close>

text \<open>
  The requests a run made are those the world gained; the submissions among them
  are the transactions sent, each with its signers and its options.
\<close>

definition issued :: "World \<Rightarrow> World \<Rightarrow> rpc_call list" where
  "issued w w' = drop (length (rpcCalls w)) (rpcCalls w')"

fun submissions :: "rpc_call list \<Rightarrow> (Transaction \<times> Keypair list \<times> SendOptions option) list" where
  "submissions [] = []"
| "submissions (GetLatestBlockhash # cs) = submissions cs"
| "submissions (SendTransaction tx signers options # cs) = (tx, signers, options) # submissions cs"

definition sent_instructions :: "World \<Rightarrow> World \<Rightarrow> TransactionInstruction list list" where
  "sent_instructions w w' = map (\<lambda>(tx, signers, options). instructions tx) (submissions (issued w w'))"

definition sent_options :: "World \<Rightarrow> World \<Rightarrow> SendOptions option list" where
  "sent_options w w' = map (\<lambda>(tx, signers, options). options) (submissions (issued w w'))"

text \<open>
  The transaction as each helper submits it: the one instruction, the blockhash of
  the reply and the keypair's public key as fee payer.
\<close>

abbreviation createTOE_submitted ::
  "SDK \<Rightarrow> NftWithToken \<Rightarrow> Keypair \<Rightarrow> BlockhashWithExpiryBlockHeight \<Rightarrow> Transaction" where
  "createTOE_submitted sdk nft keypair r \<equiv>
     \<lparr>instructions = [createTOE_createIX sdk nft keypair],
      recentBlockhash = Some (blockhash r),
      feePayer = Some (publicKey keypair)\<rparr>"

abbreviation transferIn_submitted ::
  "SDK \<Rightarrow> NftWithToken \<Rightarrow> PublicKey \<Rightarrow> 'a SftWithToken_scheme \<Rightarrow> Keypair
     \<Rightarrow> BlockhashWithExpiryBlockHeight \<Rightarrow> Transaction" where
  "transferIn_submitted sdk escrowNft escrowAccountAddress nft keypair r \<equiv>
     \<lparr>instructions = [transferIn_transferIX sdk escrowNft escrowAccountAddress nft keypair],
      recentBlockhash = Some (blockhash r),
      feePayer = Some (publicKey keypair)\<rparr>"

subsection \<open>The creation instruction's account list\<close>

text \<open>
  Modelled from the spec: \<open>createCreateEscrowAccountInstruction\<close> of the generated
  bindings is not among the sources. The spec: "The constructed creation instruction's
  account list contains exactly the escrow, metadata, mint, edition, payer, and
  (implicitly) system-program accounts in the documented roles (writable/signer flags
  as specified)". The flags documented for each role are the table \<open>documented\<close>;
  the system program is not among the accounts the helper passes, so it is the
  System Program's own address; program identifier and instruction data are
  parameters.
\<close>

datatype role = Escrow | Metadata | Mint | Edition | Payer | SystemProgram

record AccountFlags =
  writable :: bool
  signer :: bool

definition account_in_role :: "(role \<Rightarrow> AccountFlags) \<Rightarrow> role \<Rightarrow> PublicKey \<Rightarrow> AccountMeta" where
  "account_in_role documented r k =
     \<lparr>pubkey = k, isWritable = writable (documented r), isSigner = signer (documented r)\<rparr>"

definition createCreateEscrowAccountInstruction_generated ::
  "(role \<Rightarrow> AccountFlags) \<Rightarrow> PublicKey \<Rightarrow> 8 word list
     \<Rightarrow> CreateEscrowAccountInstructionAccounts \<Rightarrow> TransactionInstruction" where
  "createCreateEscrowAccountInstruction_generated documented pid payload accounts =
     \<lparr>programId = pid,
      keys = [account_in_role documented Escrow (escrow accounts),
              account_in_role documented Metadata (metadata accounts),
              account_in_role documented Mint (mint accounts),
              account_in_role documented Edition (edition accounts),
              account_in_role documented Payer (payer accounts),
              account_in_role documented SystemProgram SystemProgram_programId],
      data = payload\<rparr>"

section \<open>The command line (the \<open>create\<close> command)\<close>

text \<open>
  The options of the \<open>create\<close> command as \<open>cmd.opts()\<close> gives them: \<open>env\<close> and
  \<open>keypair\<close> have defaults, the others may be absent.
\<close>

record CreateOptions =
  opt_env :: string
  opt_rpc :: "string option"
  opt_keypair :: string
  opt_logLevel :: "string option"
  opt_amount :: "string option"

record Command =
  opts :: CreateOptions

text \<open>
  The action of the command. \<open>use_metaplex\<close> of \<open>./helpers/utils\<close> is not among
  the sources and is a parameter: whatever it does to the world, it returns a client
  handle or throws.
\<close>

definition create_action ::
  "(string \<Rightarrow> string \<Rightarrow> string option \<Rightarrow> World \<Rightarrow> (Error + 'm) \<times> World)
     \<Rightarrow> 'd \<Rightarrow> Command \<Rightarrow> World \<Rightarrow> (Error + unit) \<times> World" where
  "create_action use_metaplex directory cmd w =
     (let keypair = opt_keypair (opts cmd);
          env = opt_env (opts cmd);
          rpc = opt_rpc (opts cmd)
      in case use_metaplex keypair env rpc w of
           (Inl e, w1) \<Rightarrow> (Inl e, w1)
         | (Inr metaplex, w1) \<Rightarrow> (Inr (), w1))"

section \<open>Sample inputs\<close>

definition ex_sdk :: SDK where
  "ex_sdk =
     \<lparr>findProgramAddress = (\<lambda>seeds pid. (PublicKey (''pda-'' @ map (\<lambda>b. if b = 0 then CHR ''0'' else CHR ''1'') (concat seeds)), 255)),
      toeSeeds = (\<lambda>m. [if m = PublicKey ''MintA'' then [0] else [1]]),
      PROGRAM_ID = PublicKey ''metaqbxxUerdq28cj1RbAWkYQm3ybzjb6a8bt518x1s'',
      getAssociatedTokenAddress = (\<lambda>m owner offCurve. PublicKey (''ata-'' @ toString m @ ''-'' @ toString owner)),
      createCreateEscrowAccountInstruction =
        (\<lambda>a. \<lparr>programId = PublicKey ''metaqbxxUerdq28cj1RbAWkYQm3ybzjb6a8bt518x1s'',
              keys = [\<lparr>pubkey = escrow a, isWritable = True, isSigner = False\<rparr>],
              data = [0]\<rparr>),
      createTransferIntoEscrowInstruction =
        (\<lambda>a args. \<lparr>programId = PublicKey ''metaqbxxUerdq28cj1RbAWkYQm3ybzjb6a8bt518x1s'',
              keys = [\<lparr>pubkey = attributeDst a, isWritable = True, isSigner = False\<rparr>],
              data = [1, word_of_int (amount (transferIntoEscrowArgs args)),
                      word_of_int (index (transferIntoEscrowArgs args))]\<rparr>)\<rparr>"

definition ex_nft :: NftWithToken where
  "ex_nft = \<lparr>mint_address = PublicKey ''MintA'', metadataAddress = PublicKey ''MetaA'',
             token_address = PublicKey ''TokenA'', edition_address = PublicKey ''EditionA''\<rparr>"

definition ex_nft2 :: NftWithToken where
  "ex_nft2 = \<lparr>mint_address = PublicKey ''MintA'', metadataAddress = PublicKey ''MetaB'',
              token_address = PublicKey ''TokenB'', edition_address = PublicKey ''EditionB''\<rparr>"

definition ex_sft :: SftWithToken where
  "ex_sft = \<lparr>mint_address = PublicKey ''MintS'', metadataAddress = PublicKey ''MetaS'',
             token_address = PublicKey ''TokenS''\<rparr>"

definition ex_keypair :: Keypair where
  "ex_keypair = \<lparr>publicKey = PublicKey ''Payer'', secretKey = [1, 2, 3]\<rparr>"

definition ex_keypair2 :: Keypair where
  "ex_keypair2 = \<lparr>publicKey = PublicKey ''Other'', secretKey = [4, 5, 6]\<rparr>"

definition ex_world :: World where
  "ex_world = \<lparr>rpcCalls = [], console = []\<rparr>"

definition ex_world2 :: World where
  "ex_world2 = \<lparr>rpcCalls = [GetLatestBlockhash], console = [LogString ''earlier'']\<rparr>"

text \<open>A connection whose calls succeed, one whose blockhash fetch throws, and one
  whose submission throws.\<close>

definition ex_connection :: Connection where
  "ex_connection =
     \<lparr>blockhashReply = (\<lambda>h. Inr \<lparr>blockhash = ''hash'', lastValidBlockHeight = 7\<rparr>),
      sendReply = (\<lambda>h tx signers options. Inr ''signature'')\<rparr>"

definition ex_connection_down :: Connection where
  "ex_connection_down =
     \<lparr>blockhashReply = (\<lambda>h. Inl (Error ''fetch failed'')),
      sendReply = (\<lambda>h tx signers options. Inr ''signature'')\<rparr>"

definition ex_connection_rejecting :: Connection where
  "ex_connection_rejecting =
     \<lparr>blockhashReply = (\<lambda>h. Inr \<lparr>blockhash = ''stale'', lastValidBlockHeight = 3\<rparr>),
      sendReply = (\<lambda>h tx signers options. Inl (Error ''rejected''))\<rparr>"

definition ex_command :: Command where
  "ex_command = \<lparr>opts = \<lparr>opt_env = ''devnet'', opt_rpc = None,
                         opt_keypair = ''--keypair not provided'',
                         opt_logLevel = None, opt_amount = Some ''5''\<rparr>\<rparr>"

definition ex_use_metaplex :: "string \<Rightarrow> string \<Rightarrow> string option \<Rightarrow> World \<Rightarrow> (Error + string) \<times> World" where
  "ex_use_metaplex keypair env rpc w =
     (if keypair = ''--keypair not provided'' then (Inl (Error ''ENOENT''), w)
      else (Inr (''client for '' @ env), w))"

text \<open>Inputs of the generated builder: accounts without a system program, a serializer
  of byte lists that refuses more than three bytes, and a \<open>u8\<close> that refuses every
  value that is not an integer.\<close>

definition ex_accounts :: AddCollectionConstraintToEscrowConstraintModelInstructionAccounts where
  "ex_accounts =
     \<lparr>acc_constraintModel = PublicKey ''Model'', acc_payer = PublicKey ''Payer'',
      updateAuthority = PublicKey ''Authority'', collectionMint = PublicKey ''Collection'',
      collectionMintMetadata = PublicKey ''CollectionMeta'', systemProgram = None,
      sysvarInstructions = PublicKey ''Sysvar1nstructions''\<rparr>"

definition ex_argsBeet :: "8 word list \<Rightarrow> Error + (8 word list \<Rightarrow> Error + 8 word list)" where
  "ex_argsBeet v = (if length v \<le> 3 then Inr (\<lambda>x. Inr x) else Inl (Error ''too long''))"

definition ex_u8_other :: "string \<Rightarrow> Error + 8 word" where
  "ex_u8_other x = Inl (Error ''ERR_INVALID_ARG_TYPE'')"

section \<open>Runs of the helpers\<close>

text \<open>What a run of each helper returns and which requests it makes, by the outcome of
  the blockhash fetch.\<close>

lemma createTOE_fetch_throws:
  "blockhashReply conn (rpcCalls w) = Inl e \<Longrightarrow>
   createTOE sdk conn nft kp w = (Inl e, w\<lparr>rpcCalls := rpcCalls w @ [GetLatestBlockhash]\<rparr>)"
  by (simp add: createTOE_def getLatestBlockhash_def)

lemma createTOE_fetch_returns:
  "blockhashReply conn (rpcCalls w) = Inr r \<Longrightarrow>
   createTOE sdk conn nft kp w =
     (case sendReply conn (rpcCalls w @ [GetLatestBlockhash]) (createTOE_submitted sdk nft kp r) [kp] None of
        Inl e \<Rightarrow> Inl e
      | Inr s \<Rightarrow> Inr (findToePda sdk (mint_address nft)),
      w\<lparr>rpcCalls := rpcCalls w @ [GetLatestBlockhash,
            SendTransaction (createTOE_submitted sdk nft kp r) [kp] None]\<rparr>)"
  by (simp add: createTOE_def getLatestBlockhash_def sendTransaction_def Let_def
        Transaction_add_def new_Transaction_def split: sum.splits)

lemma transferIn_fetch_throws:
  "blockhashReply conn (rpcCalls w) = Inl e \<Longrightarrow>
   transferIn sdk conn escrowNft ea nft kp w =
     (Inl e, w\<lparr>rpcCalls := rpcCalls w @ [GetLatestBlockhash],
               console := console w @ [LogString ''dst:'', LogString (toString (transferIn_dst sdk ea nft))]\<rparr>)"
  by (simp add: transferIn_def getLatestBlockhash_def console_log_def)

lemma transferIn_fetch_returns:
  "blockhashReply conn (rpcCalls w) = Inr r \<Longrightarrow>
   transferIn sdk conn escrowNft ea nft kp w =
     (case sendReply conn (rpcCalls w @ [GetLatestBlockhash])
             (transferIn_submitted sdk escrowNft ea nft kp r) [kp] (Some \<lparr>skipPreflight = True\<rparr>) of
        Inl e \<Rightarrow> Inl e
      | Inr s \<Rightarrow> Inr (),
      w\<lparr>rpcCalls := rpcCalls w @ [GetLatestBlockhash,
            SendTransaction (transferIn_submitted sdk escrowNft ea nft kp r) [kp] (Some \<lparr>skipPreflight = True\<rparr>)],
        console := console w @ [LogString ''dst:'', LogString (toString (transferIn_dst sdk ea nft)),
            LogTransaction (transferIn_submitted sdk escrowNft ea nft kp r)]\<rparr>)"
  by (simp add: transferIn_def getLatestBlockhash_def sendTransaction_def console_log_def Let_def
        Transaction_add_def new_Transaction_def split: sum.splits)

lemma issued_append: "issued w (w\<lparr>rpcCalls := rpcCalls w @ cs, console := c\<rparr>) = cs"
  "issued w (w\<lparr>rpcCalls := rpcCalls w @ cs\<rparr>) = cs"
  by (simp_all add: issued_def)

lemma createTOE_issued:
  "issued w (snd (createTOE sdk conn nft kp w)) =
     (case blockhashReply conn (rpcCalls w) of
        Inl e \<Rightarrow> [GetLatestBlockhash]
      | Inr r \<Rightarrow> [GetLatestBlockhash, SendTransaction (createTOE_submitted sdk nft kp r) [kp] None])"
  by (cases "blockhashReply conn (rpcCalls w)")
     (simp_all add: createTOE_fetch_throws createTOE_fetch_returns issued_append)

lemma transferIn_issued:
  "issued w (snd (transferIn sdk conn escrowNft ea nft kp w)) =
     (case blockhashReply conn (rpcCalls w) of
        Inl e \<Rightarrow> [GetLatestBlockhash]
      | Inr r \<Rightarrow> [GetLatestBlockhash,
                  SendTransaction (transferIn_submitted sdk escrowNft ea nft kp r) [kp]
                    (Some \<lparr>skipPreflight = True\<rparr>)])"
  by (cases "blockhashReply conn (rpcCalls w)")
     (simp_all add: transferIn_fetch_throws transferIn_fetch_returns issued_append)

lemma createTOE_result:
  "fst (createTOE sdk conn nft kp w) =
     (case blockhashReply conn (rpcCalls w) of
        Inl e \<Rightarrow> Inl e
      | Inr r \<Rightarrow>
          (case sendReply conn (rpcCalls w @ [GetLatestBlockhash])
                  (createTOE_submitted sdk nft kp r) [kp] None of
             Inl e \<Rightarrow> Inl e
           | Inr s \<Rightarrow> Inr (findToePda sdk (mint_address nft))))"
  by (cases "blockhashReply conn (rpcCalls w)")
     (simp_all add: createTOE_fetch_throws createTOE_fetch_returns)

lemma transferIn_result:
  "fst (transferIn sdk conn escrowNft ea nft kp w) =
     (case blockhashReply conn (rpcCalls w) of
        Inl e \<Rightarrow> Inl e
      | Inr r \<Rightarrow>
          (case sendReply conn (rpcCalls w @ [GetLatestBlockhash])
                  (transferIn_submitted sdk escrowNft ea nft kp r) [kp]
                  (Some \<lparr>skipPreflight = True\<rparr>) of
             Inl e \<Rightarrow> Inl e
           | Inr s \<Rightarrow> Inr ()))"
  by (cases "blockhashReply conn (rpcCalls w)")
     (simp_all add: transferIn_fetch_throws transferIn_fetch_returns)

section \<open>Properties of the escrow helpers\<close>

text \<open>
  C1. For every connection, world, NFT handles, escrow address and keypair (there is no
  amount among the parameters of \<open>transferIn\<close>), the transfer instruction is the
  builder's result on the fixed arguments amount = 1 and index = 1, and a transaction
  \<open>transferIn\<close> submits holds exactly this instruction.
\<close>

theorem transferIn_fixed_arguments:
  "\<exists>accounts.
     transferIn_transferIX sdk escrowNft ea nft kp =
       createTransferIntoEscrowInstruction sdk accounts
         \<lparr>transferIntoEscrowArgs = \<lparr>amount = 1, index = 1\<rparr>\<rparr>
     \<and> sent_instructions w (snd (transferIn sdk conn escrowNft ea nft kp w)) =
         (if isl (blockhashReply conn (rpcCalls w)) then []
          else [[createTransferIntoEscrowInstruction sdk accounts
                   \<lparr>transferIntoEscrowArgs = \<lparr>amount = 1, index = 1\<rparr>\<rparr>]])"
  by (rule exI [of _ "transferIn_accounts sdk escrowNft ea nft kp"],
      cases "blockhashReply conn (rpcCalls w)")
     (simp_all add: sent_instructions_def transferIn_issued transferIn_transferIX_def
        transferIn_args_def)

text \<open>
  C2. \<open>createTOE\<close> returns what \<open>findToePda\<close> computes from the NFT mint's public key
  (the pair of the derived address and its bump): whenever it returns, that is the
  value, and it returns whenever the blockhash fetch and the submission return,
  whatever the signature or the later fate of the transaction.
\<close>

theorem createTOE_returns_derived_address:
  "(\<forall>r. fst (createTOE sdk conn nft kp w) = Inr r \<longrightarrow> r = findToePda sdk (mint_address nft))
   \<and> (\<forall>bh sig.
         blockhashReply conn (rpcCalls w) = Inr bh
         \<and> sendReply conn (rpcCalls w @ [GetLatestBlockhash])
              (createTOE_submitted sdk nft kp bh) [kp] None = Inr sig
         \<longrightarrow> fst (createTOE sdk conn nft kp w) = Inr (findToePda sdk (mint_address nft)))"
  by (auto simp add: createTOE_result split: sum.splits)

theorem createTOE_returns_derived_address_witness:
  "blockhashReply ex_connection (rpcCalls ex_world) =
     Inr \<lparr>blockhash = ''hash'', lastValidBlockHeight = 7\<rparr>
   \<and> fst (createTOE ex_sdk ex_connection ex_nft ex_keypair ex_world) = Inr (PublicKey ''pda-0'', 255)
   \<and> fst (createTOE ex_sdk (ex_connection\<lparr>sendReply := (\<lambda>h tx signers options. Inr ''another'')\<rparr>)
            ex_nft ex_keypair ex_world2) = Inr (PublicKey ''pda-0'', 255)"
proof -
  have pda: "findToePda ex_sdk (mint_address ex_nft) = (PublicKey ''pda-0'', 255)"
    by (simp add: findToePda_def ex_sdk_def ex_nft_def)
  have h1: "blockhashReply ex_connection (rpcCalls ex_world) =
              Inr \<lparr>blockhash = ''hash'', lastValidBlockHeight = 7\<rparr>"
    by (simp add: ex_connection_def)
  have h2: "sendReply ex_connection (rpcCalls ex_world @ [GetLatestBlockhash])
              (createTOE_submitted ex_sdk ex_nft ex_keypair
                 \<lparr>blockhash = ''hash'', lastValidBlockHeight = 7\<rparr>) [ex_keypair] None
            = Inr ''signature''"
    by (simp add: ex_connection_def)
  have h3: "blockhashReply (ex_connection\<lparr>sendReply := (\<lambda>h tx signers options. Inr ''another'')\<rparr>)
              (rpcCalls ex_world2) = Inr \<lparr>blockhash = ''hash'', lastValidBlockHeight = 7\<rparr>"
    by (simp add: ex_connection_def)
  have h4: "sendReply (ex_connection\<lparr>sendReply := (\<lambda>h tx signers options. Inr ''another'')\<rparr>)
              (rpcCalls ex_world2 @ [GetLatestBlockhash])
              (createTOE_submitted ex_sdk ex_nft ex_keypair
                 \<lparr>blockhash = ''hash'', lastValidBlockHeight = 7\<rparr>) [ex_keypair] None
            = Inr ''another''"
    by simp
  from createTOE_returns_derived_address [of ex_sdk ex_connection ex_nft ex_keypair ex_world] h1 h2
  have a: "fst (createTOE ex_sdk ex_connection ex_nft ex_keypair ex_world) =
             Inr (findToePda ex_sdk (mint_address ex_nft))"
    by blast
  from createTOE_returns_derived_address
         [of ex_sdk "ex_connection\<lparr>sendReply := (\<lambda>h tx signers options. Inr ''another'')\<rparr>"
             ex_nft ex_keypair ex_world2] h3 h4
  have b: "fst (createTOE ex_sdk (ex_connection\<lparr>sendReply := (\<lambda>h tx signers options. Inr ''another'')\<rparr>)
              ex_nft ex_keypair ex_world2) = Inr (findToePda ex_sdk (mint_address ex_nft))"
    by blast
  from a b h1 show ?thesis by (simp add: pda)
qed

text \<open>
  C3. For a fixed mint public key the derived escrow account address of \<open>createTOE\<close>
  is deterministic: two calls on handles with the same mint, whatever the connection,
  the keypair, the other fields of the handle and the world, pass the same escrow
  address to the builder and, when both return, return the same derived address.
\<close>

theorem derived_address_deterministic:
  assumes "mint_address nft1 = mint_address nft2"
  shows "escrow (createTOE_accounts sdk nft1 k1) = escrow (createTOE_accounts sdk nft2 k2)
         \<and> escrow (createTOE_accounts sdk nft1 k1) = fst (findToePda sdk (mint_address nft1))
         \<and> (\<forall>r1 r2. fst (createTOE sdk c1 nft1 k1 w1) = Inr r1
                     \<and> fst (createTOE sdk c2 nft2 k2 w2) = Inr r2 \<longrightarrow> r1 = r2)"
  using assms by (auto simp add: createTOE_accounts_def createTOE_result split: sum.splits)

theorem derived_address_deterministic_witness:
  "mint_address ex_nft = mint_address ex_nft2
   \<and> ex_nft \<noteq> ex_nft2
   \<and> escrow (createTOE_accounts ex_sdk ex_nft ex_keypair) = PublicKey ''pda-0''
   \<and> escrow (createTOE_accounts ex_sdk ex_nft2 ex_keypair2) = PublicKey ''pda-0''
   \<and> fst (createTOE ex_sdk ex_connection ex_nft ex_keypair ex_world) = Inr (PublicKey ''pda-0'', 255)
   \<and> fst (createTOE ex_sdk ex_connection ex_nft2 ex_keypair2 ex_world2) = Inr (PublicKey ''pda-0'', 255)"
proof -
  have m: "mint_address ex_nft = mint_address ex_nft2"
    by (simp add: ex_nft_def ex_nft2_def)
  have r1: "fst (createTOE ex_sdk ex_connection ex_nft ex_keypair ex_world) = Inr (PublicKey ''pda-0'', 255)"
    by (simp add: createTOE_result findToePda_def ex_connection_def ex_sdk_def ex_nft_def)
  have e1: "escrow (createTOE_accounts ex_sdk ex_nft ex_keypair) = PublicKey ''pda-0''"
    by (simp add: createTOE_accounts_def findToePda_def ex_sdk_def ex_nft_def)
  have "\<exists>r2. fst (createTOE ex_sdk ex_connection ex_nft2 ex_keypair2 ex_world2) = Inr r2"
    by (simp add: createTOE_result ex_connection_def)
  then obtain r2 where r2: "fst (createTOE ex_sdk ex_connection ex_nft2 ex_keypair2 ex_world2) = Inr r2" ..
  note d = derived_address_deterministic
         [OF m, of ex_sdk ex_keypair ex_keypair2 ex_connection ex_world ex_connection ex_world2]
  from d r1 r2 have "(PublicKey ''pda-0'', 255) = r2" by blast
  moreover from d e1 have "escrow (createTOE_accounts ex_sdk ex_nft2 ex_keypair2) = PublicKey ''pda-0''"
    by simp
  ultimately show ?thesis using m r1 r2 e1 by (simp add: ex_nft_def ex_nft2_def)
qed

text \<open>
  C4. For every invocation of \<open>transferIn\<close>, the destination account given to the
  transfer instruction (\<open>attributeDst\<close>) is the associated-token-account address
  derived from the deposited token's mint and the escrow account address (the escrow
  address as owner, off-curve owners allowed).
\<close>

theorem transferIn_destination:
  "\<exists>accounts args.
     attributeDst accounts = getAssociatedTokenAddress sdk (mint_address nft) ea True
     \<and> attributeMint accounts = mint_address nft
     \<and> ti_escrow accounts = ea
     \<and> transferIn_transferIX sdk escrowNft ea nft kp =
         createTransferIntoEscrowInstruction sdk accounts args
     \<and> sent_instructions w (snd (transferIn sdk conn escrowNft ea nft kp w)) =
         (if isl (blockhashReply conn (rpcCalls w)) then []
          else [[createTransferIntoEscrowInstruction sdk accounts args]])"
proof (intro exI [of _ "transferIn_accounts sdk escrowNft ea nft kp"]
             exI [of _ transferIn_args] conjI)
  show "sent_instructions w (snd (transferIn sdk conn escrowNft ea nft kp w)) =
         (if isl (blockhashReply conn (rpcCalls w)) then []
          else [[createTransferIntoEscrowInstruction sdk
                   (transferIn_accounts sdk escrowNft ea nft kp) transferIn_args]])"
    by (cases "blockhashReply conn (rpcCalls w)")
       (simp_all add: sent_instructions_def transferIn_issued transferIn_transferIX_def)
qed (simp_all add: transferIn_accounts_def transferIn_dst_def transferIn_transferIX_def)

text \<open>
  C6. For every invocation of \<open>transferIn\<close>, the constraint-model account given to
  the transfer instruction is the one hard-coded public key, whatever the inputs, and
  every submission is made with the option \<open>skipPreflight\<close> set (one submission when
  the blockhash fetch returns, none when it throws).
\<close>

theorem transferIn_skips_preflight_fixed_model:
  "\<exists>accounts args.
     constraintModel accounts = PublicKey ''CjWwgEJUBdb2iYjZsDng5qkYRC8f3rQeqr4k1j9jExr5''
     \<and> transferIn_transferIX sdk escrowNft ea nft kp =
         createTransferIntoEscrowInstruction sdk accounts args
     \<and> sent_instructions w (snd (transferIn sdk conn escrowNft ea nft kp w)) =
         (if isl (blockhashReply conn (rpcCalls w)) then []
          else [[createTransferIntoEscrowInstruction sdk accounts args]])
     \<and> sent_options w (snd (transferIn sdk conn escrowNft ea nft kp w)) =
         (if isl (blockhashReply conn (rpcCalls w)) then []
          else [Some \<lparr>skipPreflight = True\<rparr>])"
proof (intro exI [of _ "transferIn_accounts sdk escrowNft ea nft kp"]
             exI [of _ transferIn_args] conjI)
  show "sent_instructions w (snd (transferIn sdk conn escrowNft ea nft kp w)) =
         (if isl (blockhashReply conn (rpcCalls w)) then []
          else [[createTransferIntoEscrowInstruction sdk
                   (transferIn_accounts sdk escrowNft ea nft kp) transferIn_args]])"
    by (cases "blockhashReply conn (rpcCalls w)")
       (simp_all add: sent_instructions_def transferIn_issued transferIn_transferIX_def)
  show "sent_options w (snd (transferIn sdk conn escrowNft ea nft kp w)) =
         (if isl (blockhashReply conn (rpcCalls w)) then []
          else [Some \<lparr>skipPreflight = True\<rparr>])"
    by (cases "blockhashReply conn (rpcCalls w)")
       (simp_all add: sent_options_def transferIn_issued)
qed (simp_all add: transferIn_accounts_def transferIn_transferIX_def)

text \<open>
  C10. For every invocation of \<open>createTOE\<close>, the accounts given to the builder of
  the creation instruction have no escrow constraint model (the field is undefined),
  and a transaction \<open>createTOE\<close> submits holds exactly the instruction built so.
\<close>

theorem createTOE_no_constraint_model:
  "\<exists>accounts.
     escrowConstraintModel accounts = None
     \<and> createTOE_createIX sdk nft kp = createCreateEscrowAccountInstruction sdk accounts
     \<and> sent_instructions w (snd (createTOE sdk conn nft kp w)) =
         (if isl (blockhashReply conn (rpcCalls w)) then []
          else [[createCreateEscrowAccountInstruction sdk accounts]])"
proof (intro exI [of _ "createTOE_accounts sdk nft kp"] conjI)
  show "sent_instructions w (snd (createTOE sdk conn nft kp w)) =
         (if isl (blockhashReply conn (rpcCalls w)) then []
          else [[createCreateEscrowAccountInstruction sdk (createTOE_accounts sdk nft kp)]])"
    by (cases "blockhashReply conn (rpcCalls w)")
       (simp_all add: sent_instructions_def createTOE_issued createTOE_createIX_def)
qed (simp_all add: createTOE_accounts_def createTOE_createIX_def)

text \<open>
  C5. With the creation builder as the spec has it, the account list of the
  instruction \<open>createTOE\<close> constructs (and of the one it submits) is exactly the
  escrow, metadata, mint, edition, payer and system-program accounts: the address
  derived from the mint, the handle's metadata, mint and edition addresses, the
  keypair's public key and the System Program's address, each with the writable and
  signer flags documented for its role.
\<close>

theorem createTOE_account_list:
  "keys (createTOE_createIX
           (sdk\<lparr>createCreateEscrowAccountInstruction :=
                  createCreateEscrowAccountInstruction_generated documented pid payload\<rparr>)
           nft kp) =
     [account_in_role documented Escrow (fst (findToePda sdk (mint_address nft))),
      account_in_role documented Metadata (metadataAddress nft),
      account_in_role documented Mint (mint_address nft),
      account_in_role documented Edition (edition_address nft),
      account_in_role documented Payer (publicKey kp),
      account_in_role documented SystemProgram (PublicKey ''11111111111111111111111111111111'')]
   \<and> map (map keys)
         (sent_instructions w
            (snd (createTOE
                    (sdk\<lparr>createCreateEscrowAccountInstruction :=
                           createCreateEscrowAccountInstruction_generated documented pid payload\<rparr>)
                    conn nft kp w))) =
       (if isl (blockhashReply conn (rpcCalls w)) then []
        else [[[account_in_role documented Escrow (fst (findToePda sdk (mint_address nft))),
                account_in_role documented Metadata (metadataAddress nft),
                account_in_role documented Mint (mint_address nft),
                account_in_role documented Edition (edition_address nft),
                account_in_role documented Payer (publicKey kp),
                account_in_role documented SystemProgram
                  (PublicKey ''11111111111111111111111111111111'')]]])"
proof -
  let ?sdk = "sdk\<lparr>createCreateEscrowAccountInstruction :=
                   createCreateEscrowAccountInstruction_generated documented pid payload\<rparr>"
  have pda: "findToePda ?sdk (mint_address nft) = findToePda sdk (mint_address nft)"
    by (simp add: findToePda_def)
  have k: "keys (createTOE_createIX ?sdk nft kp) =
     [account_in_role documented Escrow (fst (findToePda sdk (mint_address nft))),
      account_in_role documented Metadata (metadataAddress nft),
      account_in_role documented Mint (mint_address nft),
      account_in_role documented Edition (edition_address nft),
      account_in_role documented Payer (publicKey kp),
      account_in_role documented SystemProgram (PublicKey ''11111111111111111111111111111111'')]"
    by (simp add: createTOE_createIX_def createTOE_accounts_def pda
          createCreateEscrowAccountInstruction_generated_def SystemProgram_programId_def)
  show ?thesis
    by (cases "blockhashReply conn (rpcCalls w)")
       (simp_all add: k sent_instructions_def createTOE_issued)
qed

text \<open>
  C7. The action of the \<open>create\<close> command only constructs the client: for every
  combination of options the world after the action is the world after
  \<open>use_metaplex\<close>, the action returns nothing or throws what \<open>use_metaplex\<close> threw,
  and the \<open>amount\<close> and log-level options change nothing. So when constructing the
  client makes no network request, the action makes none; \<open>createTOE\<close> and
  \<open>transferIn\<close>, whenever invoked, make at least one, so the action invokes neither.
\<close>

theorem create_action_only_builds_client:
  "snd (create_action um d cmd w) =
     snd (um (opt_keypair (opts cmd)) (opt_env (opts cmd)) (opt_rpc (opts cmd)) w)
   \<and> fst (create_action um d cmd w) =
       (case fst (um (opt_keypair (opts cmd)) (opt_env (opts cmd)) (opt_rpc (opts cmd)) w) of
          Inl e \<Rightarrow> Inl e
        | Inr metaplex \<Rightarrow> Inr ())
   \<and> (rpcCalls (snd (um (opt_keypair (opts cmd)) (opt_env (opts cmd)) (opt_rpc (opts cmd)) w))
         = rpcCalls w
       \<longrightarrow> rpcCalls (snd (create_action um d cmd w)) = rpcCalls w)
   \<and> create_action um d (cmd\<lparr>opts := (opts cmd)\<lparr>opt_amount := a, opt_logLevel := l\<rparr>\<rparr>) w =
       create_action um d cmd w
   \<and> rpcCalls (snd (createTOE sdk conn nft kp w)) \<noteq> rpcCalls w
   \<and> rpcCalls (snd (transferIn sdk conn escrowNft ea sft kp w)) \<noteq> rpcCalls w"
proof -
  have 1: "rpcCalls (snd (createTOE sdk conn nft kp w)) \<noteq> rpcCalls w"
    by (cases "blockhashReply conn (rpcCalls w)")
       (simp_all add: createTOE_fetch_throws createTOE_fetch_returns)
  have 2: "rpcCalls (snd (transferIn sdk conn escrowNft ea sft kp w)) \<noteq> rpcCalls w"
    by (cases "blockhashReply conn (rpcCalls w)")
       (simp_all add: transferIn_fetch_throws transferIn_fetch_returns)
  show ?thesis
    using 1 2 by (simp add: create_action_def Let_def split: prod.splits sum.splits)
qed

theorem create_action_only_builds_client_witness:
  "rpcCalls (snd (ex_use_metaplex (opt_keypair (opts ex_command)) (opt_env (opts ex_command))
                    (opt_rpc (opts ex_command)) ex_world2)) = rpcCalls ex_world2
   \<and> create_action ex_use_metaplex () ex_command ex_world2 = (Inl (Error ''ENOENT''), ex_world2)
   \<and> create_action ex_use_metaplex ()
         (ex_command\<lparr>opts := (opts ex_command)\<lparr>opt_keypair := ''id.json''\<rparr>\<rparr>) ex_world2
       = (Inr (), ex_world2)"
proof -
  let ?c = "ex_command\<lparr>opts := (opts ex_command)\<lparr>opt_keypair := ''id.json''\<rparr>\<rparr>"
  have h1: "rpcCalls (snd (ex_use_metaplex (opt_keypair (opts ex_command)) (opt_env (opts ex_command))
                    (opt_rpc (opts ex_command)) ex_world2)) = rpcCalls ex_world2"
    by (simp add: ex_use_metaplex_def)
  have h2: "snd (ex_use_metaplex (opt_keypair (opts ?c)) (opt_env (opts ?c)) (opt_rpc (opts ?c)) ex_world2)
              = ex_world2"
    by (simp add: ex_use_metaplex_def)
  have f1: "fst (ex_use_metaplex (opt_keypair (opts ex_command)) (opt_env (opts ex_command))
                    (opt_rpc (opts ex_command)) ex_world2) = Inl (Error ''ENOENT'')"
    by (simp add: ex_use_metaplex_def ex_command_def)
  have f2: "fst (ex_use_metaplex (opt_keypair (opts ?c)) (opt_env (opts ?c)) (opt_rpc (opts ?c)) ex_world2)
              = Inr ''client for devnet''"
    by (simp add: ex_use_metaplex_def ex_command_def)
  note a = create_action_only_builds_client [of ex_use_metaplex "()" ex_command ex_world2]
  note b = create_action_only_builds_client [of ex_use_metaplex "()" ?c ex_world2]
  from a have a1: "snd (create_action ex_use_metaplex () ex_command ex_world2) =
      snd (ex_use_metaplex (opt_keypair (opts ex_command)) (opt_env (opts ex_command))
             (opt_rpc (opts ex_command)) ex_world2)"
    and a2: "fst (create_action ex_use_metaplex () ex_command ex_world2) =
      (case fst (ex_use_metaplex (opt_keypair (opts ex_command)) (opt_env (opts ex_command))
                   (opt_rpc (opts ex_command)) ex_world2) of
         Inl e \<Rightarrow> Inl e | Inr metaplex \<Rightarrow> Inr ())"
    by blast+
  from b have b1: "snd (create_action ex_use_metaplex () ?c ex_world2) =
      snd (ex_use_metaplex (opt_keypair (opts ?c)) (opt_env (opts ?c)) (opt_rpc (opts ?c)) ex_world2)"
    and b2: "fst (create_action ex_use_metaplex () ?c ex_world2) =
      (case fst (ex_use_metaplex (opt_keypair (opts ?c)) (opt_env (opts ?c)) (opt_rpc (opts ?c))
                   ex_world2) of
         Inl e \<Rightarrow> Inl e | Inr metaplex \<Rightarrow> Inr ())"
    by blast+
  have s1: "snd (ex_use_metaplex (opt_keypair (opts ex_command)) (opt_env (opts ex_command))
                    (opt_rpc (opts ex_command)) ex_world2) = ex_world2"
    by (simp add: ex_use_metaplex_def)
  have "create_action ex_use_metaplex () ex_command ex_world2 = (Inl (Error ''ENOENT''), ex_world2)"
    unfolding prod_eq_iff a1 a2 f1 s1 by simp
  moreover have "create_action ex_use_metaplex () ?c ex_world2 = (Inr (), ex_world2)"
    unfolding prod_eq_iff b1 b2 f2 h2 by simp
  ultimately show ?thesis using h1 by simp
qed

text \<open>
  C8. \<open>createTOE\<close> and \<open>transferIn\<close> neither retry nor translate errors. When the
  blockhash fetch throws, the helper throws the same exception and has made that one
  request only; when the fetch returns and the submission throws, the helper throws
  the same exception and has made exactly the two requests; when both return, the
  helper throws nothing and has made exactly the two requests.
\<close>

theorem helpers_propagate_network_errors:
  "(\<forall>e. blockhashReply conn (rpcCalls w) = Inl e \<longrightarrow>
        fst (createTOE sdk conn nft kp w) = Inl e
        \<and> issued w (snd (createTOE sdk conn nft kp w)) = [GetLatestBlockhash])
   \<and> (\<forall>r e. blockhashReply conn (rpcCalls w) = Inr r
        \<and> sendReply conn (rpcCalls w @ [GetLatestBlockhash])
             (createTOE_submitted sdk nft kp r) [kp] None = Inl e \<longrightarrow>
        fst (createTOE sdk conn nft kp w) = Inl e
        \<and> issued w (snd (createTOE sdk conn nft kp w)) =
            [GetLatestBlockhash, SendTransaction (createTOE_submitted sdk nft kp r) [kp] None])
   \<and> (\<forall>r s. blockhashReply conn (rpcCalls w) = Inr r
        \<and> sendReply conn (rpcCalls w @ [GetLatestBlockhash])
             (createTOE_submitted sdk nft kp r) [kp] None = Inr s \<longrightarrow>
        \<not> isl (fst (createTOE sdk conn nft kp w))
        \<and> issued w (snd (createTOE sdk conn nft kp w)) =
            [GetLatestBlockhash, SendTransaction (createTOE_submitted sdk nft kp r) [kp] None])
   \<and> (\<forall>e. blockhashReply conn (rpcCalls w) = Inl e \<longrightarrow>
        fst (transferIn sdk conn escrowNft ea sft kp w) = Inl e
        \<and> issued w (snd (transferIn sdk conn escrowNft ea sft kp w)) = [GetLatestBlockhash])
   \<and> (\<forall>r e. blockhashReply conn (rpcCalls w) = Inr r
        \<and> sendReply conn (rpcCalls w @ [GetLatestBlockhash])
             (transferIn_submitted sdk escrowNft ea sft kp r) [kp]
             (Some \<lparr>skipPreflight = True\<rparr>) = Inl e \<longrightarrow>
        fst (transferIn sdk conn escrowNft ea sft kp w) = Inl e
        \<and> issued w (snd (transferIn sdk conn escrowNft ea sft kp w)) =
            [GetLatestBlockhash,
             SendTransaction (transferIn_submitted sdk escrowNft ea sft kp r) [kp]
               (Some \<lparr>skipPreflight = True\<rparr>)])
   \<and> (\<forall>r s. blockhashReply conn (rpcCalls w) = Inr r
        \<and> sendReply conn (rpcCalls w @ [GetLatestBlockhash])
             (transferIn_submitted sdk escrowNft ea sft kp r) [kp]
             (Some \<lparr>skipPreflight = True\<rparr>) = Inr s \<longrightarrow>
        \<not> isl (fst (transferIn sdk conn escrowNft ea sft kp w))
        \<and> issued w (snd (transferIn sdk conn escrowNft ea sft kp w)) =
            [GetLatestBlockhash,
             SendTransaction (transferIn_submitted sdk escrowNft ea sft kp r) [kp]
               (Some \<lparr>skipPreflight = True\<rparr>)])"
  by (simp add: createTOE_result createTOE_issued transferIn_result transferIn_issued)

theorem helpers_propagate_network_errors_witness:
  "fst (createTOE ex_sdk ex_connection_down ex_nft ex_keypair ex_world) = Inl (Error ''fetch failed'')
   \<and> fst (createTOE ex_sdk ex_connection_rejecting ex_nft ex_keypair ex_world) = Inl (Error ''rejected'')
   \<and> \<not> isl (fst (createTOE ex_sdk ex_connection ex_nft ex_keypair ex_world))
   \<and> fst (transferIn ex_sdk ex_connection_down ex_nft (PublicKey ''pda-0'') ex_sft ex_keypair ex_world)
       = Inl (Error ''fetch failed'')
   \<and> fst (transferIn ex_sdk ex_connection_rejecting ex_nft (PublicKey ''pda-0'') ex_sft ex_keypair ex_world)
       = Inl (Error ''rejected'')
   \<and> \<not> isl (fst (transferIn ex_sdk ex_connection ex_nft (PublicKey ''pda-0'') ex_sft ex_keypair ex_world))
   \<and> issued ex_world (snd (createTOE ex_sdk ex_connection_down ex_nft ex_keypair ex_world))
       = [GetLatestBlockhash]
   \<and> length (issued ex_world (snd (createTOE ex_sdk ex_connection_rejecting ex_nft ex_keypair ex_world)))
       = 2"
proof -
  have d: "blockhashReply ex_connection_down (rpcCalls ex_world) = Inl (Error ''fetch failed'')"
    by (simp add: ex_connection_down_def)
  have j: "blockhashReply ex_connection_rejecting (rpcCalls ex_world) =
             Inr \<lparr>blockhash = ''stale'', lastValidBlockHeight = 3\<rparr>"
    and js: "\<And>tx ks os. sendReply ex_connection_rejecting (rpcCalls ex_world @ [GetLatestBlockhash]) tx ks os
             = Inl (Error ''rejected'')"
    by (simp_all add: ex_connection_rejecting_def)
  have g: "blockhashReply ex_connection (rpcCalls ex_world) =
             Inr \<lparr>blockhash = ''hash'', lastValidBlockHeight = 7\<rparr>"
    and gs: "\<And>tx ks os. sendReply ex_connection (rpcCalls ex_world @ [GetLatestBlockhash]) tx ks os
             = Inr ''signature''"
    by (simp_all add: ex_connection_def)
  note t1 = helpers_propagate_network_errors
              [of ex_connection_down ex_world ex_sdk ex_nft ex_keypair ex_nft "PublicKey ''pda-0''" ex_sft]
  note t2 = helpers_propagate_network_errors
              [of ex_connection_rejecting ex_world ex_sdk ex_nft ex_keypair ex_nft "PublicKey ''pda-0''" ex_sft]
  note t3 = helpers_propagate_network_errors
              [of ex_connection ex_world ex_sdk ex_nft ex_keypair ex_nft "PublicKey ''pda-0''" ex_sft]
  from t1 d have
    "fst (createTOE ex_sdk ex_connection_down ex_nft ex_keypair ex_world) = Inl (Error ''fetch failed'')"
    "fst (transferIn ex_sdk ex_connection_down ex_nft (PublicKey ''pda-0'') ex_sft ex_keypair ex_world)
       = Inl (Error ''fetch failed'')"
    "issued ex_world (snd (createTOE ex_sdk ex_connection_down ex_nft ex_keypair ex_world))
       = [GetLatestBlockhash]"
    by blast+
  moreover from t2 j js have
    "fst (createTOE ex_sdk ex_connection_rejecting ex_nft ex_keypair ex_world) = Inl (Error ''rejected'')"
    "fst (transferIn ex_sdk ex_connection_rejecting ex_nft (PublicKey ''pda-0'') ex_sft ex_keypair ex_world)
       = Inl (Error ''rejected'')"
    "length (issued ex_world (snd (createTOE ex_sdk ex_connection_rejecting ex_nft ex_keypair ex_world)))
       = 2"
    by simp_all
  moreover from t3 g gs have
    "\<not> isl (fst (createTOE ex_sdk ex_connection ex_nft ex_keypair ex_world))"
    "\<not> isl (fst (transferIn ex_sdk ex_connection ex_nft (PublicKey ''pda-0'') ex_sft ex_keypair ex_world))"
    by simp_all
  ultimately show ?thesis by simp
qed

section \<open>Properties of the generated builder\<close>

lemma addCollectionConstraint_keys:
  "createAddCollectionConstraintToEscrowConstraintModelInstruction u8_other argsBeet accounts args pid
     = Inr ix \<Longrightarrow>
   keys ix =
     [\<lparr>pubkey = acc_constraintModel accounts, isWritable = True, isSigner = False\<rparr>,
      \<lparr>pubkey = acc_payer accounts, isWritable = True, isSigner = True\<rparr>,
      \<lparr>pubkey = updateAuthority accounts, isWritable = False, isSigner = True\<rparr>,
      \<lparr>pubkey = collectionMint accounts, isWritable = False, isSigner = False\<rparr>,
      \<lparr>pubkey = collectionMintMetadata accounts, isWritable = False, isSigner = False\<rparr>,
      \<lparr>pubkey = (if systemProgram accounts = None
                  then PublicKey ''11111111111111111111111111111111''
                  else the (systemProgram accounts)),
       isWritable = False, isSigner = False\<rparr>,
      \<lparr>pubkey = sysvarInstructions accounts, isWritable = False, isSigner = False\<rparr>]"
  by (cases "systemProgram accounts")
     (auto simp add: createAddCollectionConstraintToEscrowConstraintModelInstruction_def
        SystemProgram_programId_def Let_def split: sum.splits)

lemma addCollectionConstraint_data:
  assumes "instructionDiscriminator args = None"
    and "argsBeet (addCollectionConstraintToEscrowConstraintModelArgs args) = Inr write_args"
    and "write_args (addCollectionConstraintToEscrowConstraintModelArgs args) = Inr bytes"
  shows "\<exists>ix. createAddCollectionConstraintToEscrowConstraintModelInstruction
                 u8_other argsBeet accounts args pid = Inr ix
              \<and> data ix = 5 # bytes"
  using assms
  by (simp add: createAddCollectionConstraintToEscrowConstraintModelInstruction_def
        AddCollectionConstraintToEscrowConstraintModelStruct_serialize_def spread_args_def
        beet_u8_write_def addCollectionConstraintToEscrowConstraintModelInstructionDiscriminator_def
        Let_def)

text \<open>
  C9. For every accounts input and every args input that has no
  \<open>instructionDiscriminator\<close> property of its own (as the declared type of the
  arguments has it) and whose arguments the serializer accepts, the builder produces
  an instruction whose data begin with the discriminator byte 5, followed by the
  serialized arguments. Whenever the builder produces an instruction, for every
  input, its key list is exactly the seven accounts constraintModel (writable), payer
  (writable, signer), updateAuthority (signer), collectionMint,
  collectionMintMetadata, systemProgram, sysvarInstructions, in this order, with
  systemProgram the System Program id when the caller omits it and the caller's key
  otherwise.
\<close>

theorem addCollectionConstraint_instruction_layout:
  "(\<forall>write_args bytes.
      instructionDiscriminator args = None
      \<and> argsBeet (addCollectionConstraintToEscrowConstraintModelArgs args) = Inr write_args
      \<and> write_args (addCollectionConstraintToEscrowConstraintModelArgs args) = Inr bytes
      \<longrightarrow> (\<exists>ix. createAddCollectionConstraintToEscrowConstraintModelInstruction
                   u8_other argsBeet accounts args pid = Inr ix
                \<and> take 1 (data ix) = [5]
                \<and> data ix = 5 # bytes))
   \<and> (\<forall>ix. createAddCollectionConstraintToEscrowConstraintModelInstruction
              u8_other argsBeet accounts args pid = Inr ix
        \<longrightarrow> keys ix =
           [\<lparr>pubkey = acc_constraintModel accounts, isWritable = True, isSigner = False\<rparr>,
            \<lparr>pubkey = acc_payer accounts, isWritable = True, isSigner = True\<rparr>,
            \<lparr>pubkey = updateAuthority accounts, isWritable = False, isSigner = True\<rparr>,
            \<lparr>pubkey = collectionMint accounts, isWritable = False, isSigner = False\<rparr>,
            \<lparr>pubkey = collectionMintMetadata accounts, isWritable = False, isSigner = False\<rparr>,
            \<lparr>pubkey = (if systemProgram accounts = None
                        then PublicKey ''11111111111111111111111111111111''
                        else the (systemProgram accounts)),
             isWritable = False, isSigner = False\<rparr>,
            \<lparr>pubkey = sysvarInstructions accounts, isWritable = False, isSigner = False\<rparr>])"
proof (intro conjI allI impI)
  fix write_args bytes
  assume h: "instructionDiscriminator args = None
      \<and> argsBeet (addCollectionConstraintToEscrowConstraintModelArgs args) = Inr write_args
      \<and> write_args (addCollectionConstraintToEscrowConstraintModelArgs args) = Inr bytes"
  then obtain ix where
    "createAddCollectionConstraintToEscrowConstraintModelInstruction
       u8_other argsBeet accounts args pid = Inr ix" and "data ix = 5 # bytes"
    using addCollectionConstraint_data [of args argsBeet write_args bytes u8_other accounts pid]
    by blast
  then show "\<exists>ix. createAddCollectionConstraintToEscrowConstraintModelInstruction
                   u8_other argsBeet accounts args pid = Inr ix
                \<and> take 1 (data ix) = [5] \<and> data ix = 5 # bytes"
    by simp
next
  fix ix
  assume "createAddCollectionConstraintToEscrowConstraintModelInstruction
            u8_other argsBeet accounts args pid = Inr ix"
  then show "keys ix =
           [\<lparr>pubkey = acc_constraintModel accounts, isWritable = True, isSigner = False\<rparr>,
            \<lparr>pubkey = acc_payer accounts, isWritable = True, isSigner = True\<rparr>,
            \<lparr>pubkey = updateAuthority accounts, isWritable = False, isSigner = True\<rparr>,
            \<lparr>pubkey = collectionMint accounts, isWritable = False, isSigner = False\<rparr>,
            \<lparr>pubkey = collectionMintMetadata accounts, isWritable = False, isSigner = False\<rparr>,
            \<lparr>pubkey = (if systemProgram accounts = None
                        then PublicKey ''11111111111111111111111111111111''
                        else the (systemProgram accounts)),
             isWritable = False, isSigner = False\<rparr>,
            \<lparr>pubkey = sysvarInstructions accounts, isWritable = False, isSigner = False\<rparr>]"
    by (rule addCollectionConstraint_keys)
qed

text \<open>The theorem at arguments of the declared type, two bytes long, and no program id.\<close>

theorem addCollectionConstraint_instruction_layout_witness:
  "instructionDiscriminator
     \<lparr>addCollectionConstraintToEscrowConstraintModelArgs = [7, 8 :: 8 word],
      instructionDiscriminator = (None :: string js_value option)\<rparr> = None
   \<and> createAddCollectionConstraintToEscrowConstraintModelInstruction ex_u8_other ex_argsBeet
         ex_accounts
         \<lparr>addCollectionConstraintToEscrowConstraintModelArgs = [7, 8],
          instructionDiscriminator = None\<rparr> None
       = Inr \<lparr>programId = PublicKey ''trifMWutwBxkSuatmpPVnEe7NoE3BJKgjVi8sSyoXWX'',
              keys =
                [\<lparr>pubkey = PublicKey ''Model'', isWritable = True, isSigner = False\<rparr>,
                 \<lparr>pubkey = PublicKey ''Payer'', isWritable = True, isSigner = True\<rparr>,
                 \<lparr>pubkey = PublicKey ''Authority'', isWritable = False, isSigner = True\<rparr>,
                 \<lparr>pubkey = PublicKey ''Collection'', isWritable = False, isSigner = False\<rparr>,
                 \<lparr>pubkey = PublicKey ''CollectionMeta'', isWritable = False, isSigner = False\<rparr>,
                 \<lparr>pubkey = PublicKey ''11111111111111111111111111111111'',
                  isWritable = False, isSigner = False\<rparr>,
                 \<lparr>pubkey = PublicKey ''Sysvar1nstructions'', isWritable = False, isSigner = False\<rparr>],
              data = [5, 7, 8]\<rparr>"
proof -
  let ?args = "\<lparr>addCollectionConstraintToEscrowConstraintModelArgs = [7, 8 :: 8 word],
                instructionDiscriminator = (None :: string js_value option)\<rparr>"
  let ?b = "createAddCollectionConstraintToEscrowConstraintModelInstruction ex_u8_other ex_argsBeet
              ex_accounts ?args None"
  have h: "instructionDiscriminator ?args = None
           \<and> ex_argsBeet (addCollectionConstraintToEscrowConstraintModelArgs ?args) = Inr (\<lambda>x. Inr x)
           \<and> (\<lambda>x. Inr x) (addCollectionConstraintToEscrowConstraintModelArgs ?args) = Inr [7, 8]"
    by (simp add: ex_argsBeet_def)
  note t = addCollectionConstraint_instruction_layout [of ?args ex_argsBeet ex_u8_other ex_accounts None]
  note t1 = t [THEN conjunct1, THEN spec [where x = "\<lambda>x. Inr x"],
                 THEN spec [where x = "[7, 8]"], THEN mp, OF h]
  then obtain ix where ix: "?b = Inr ix" and d: "data ix = [5, 7, 8]"
    by (elim exE conjE)
  note t2 = t [THEN conjunct2, THEN spec, THEN mp, OF ix]
  from t2 have k: "keys ix =
      [\<lparr>pubkey = PublicKey ''Model'', isWritable = True, isSigner = False\<rparr>,
       \<lparr>pubkey = PublicKey ''Payer'', isWritable = True, isSigner = True\<rparr>,
       \<lparr>pubkey = PublicKey ''Authority'', isWritable = False, isSigner = True\<rparr>,
       \<lparr>pubkey = PublicKey ''Collection'', isWritable = False, isSigner = False\<rparr>,
       \<lparr>pubkey = PublicKey ''CollectionMeta'', isWritable = False, isSigner = False\<rparr>,
       \<lparr>pubkey = PublicKey ''11111111111111111111111111111111'',
        isWritable = False, isSigner = False\<rparr>,
       \<lparr>pubkey = PublicKey ''Sysvar1nstructions'', isWritable = False, isSigner = False\<rparr>]"
    by (simp add: ex_accounts_def)
  have p: "programId ix = PublicKey ''trifMWutwBxkSuatmpPVnEe7NoE3BJKgjVi8sSyoXWX''"
    using ix
    by (simp add: createAddCollectionConstraintToEscrowConstraintModelInstruction_def Let_def
          split: sum.splits) auto
  have "ix = \<lparr>programId = programId ix, keys = keys ix, data = data ix\<rparr>"
    by simp
  with ix d k p show ?thesis by (simp add: h)
qed

text \<open>
  Without the two conditions the first part fails. Arguments that carry
  \<open>instructionDiscriminator: 9\<close> give data that begin with 9; arguments that carry
  \<open>instructionDiscriminator: 256\<close>, and arguments the serializer refuses, make the
  builder throw, so that no instruction is produced.
\<close>

theorem addCollectionConstraint_discriminator_counterexample:
  "createAddCollectionConstraintToEscrowConstraintModelInstruction ex_u8_other ex_argsBeet
       ex_accounts
       \<lparr>addCollectionConstraintToEscrowConstraintModelArgs = [7, 8],
        instructionDiscriminator = Some (JSInt 9)\<rparr> None
     = Inr \<lparr>programId = PublicKey ''trifMWutwBxkSuatmpPVnEe7NoE3BJKgjVi8sSyoXWX'',
            keys =
              [\<lparr>pubkey = PublicKey ''Model'', isWritable = True, isSigner = False\<rparr>,
               \<lparr>pubkey = PublicKey ''Payer'', isWritable = True, isSigner = True\<rparr>,
               \<lparr>pubkey = PublicKey ''Authority'', isWritable = False, isSigner = True\<rparr>,
               \<lparr>pubkey = PublicKey ''Collection'', isWritable = False, isSigner = False\<rparr>,
               \<lparr>pubkey = PublicKey ''CollectionMeta'', isWritable = False, isSigner = False\<rparr>,
               \<lparr>pubkey = PublicKey ''11111111111111111111111111111111'',
                isWritable = False, isSigner = False\<rparr>,
               \<lparr>pubkey = PublicKey ''Sysvar1nstructions'', isWritable = False, isSigner = False\<rparr>],
            data = [9, 7, 8]\<rparr>
   \<and> [9 :: 8 word] \<noteq> [5]
   \<and> createAddCollectionConstraintToEscrowConstraintModelInstruction ex_u8_other ex_argsBeet
       ex_accounts
       \<lparr>addCollectionConstraintToEscrowConstraintModelArgs = [7, 8],
        instructionDiscriminator = Some (JSInt 256)\<rparr> None
     = Inl (Error ''ERR_OUT_OF_RANGE'')
   \<and> createAddCollectionConstraintToEscrowConstraintModelInstruction ex_u8_other ex_argsBeet
       ex_accounts
       \<lparr>addCollectionConstraintToEscrowConstraintModelArgs = [1, 2, 3, 4],
        instructionDiscriminator = None\<rparr> None
     = Inl (Error ''too long'')"
  by (simp add: createAddCollectionConstraintToEscrowConstraintModelInstruction_def
        AddCollectionConstraintToEscrowConstraintModelStruct_serialize_def spread_args_def
        beet_u8_write_def addCollectionConstraintToEscrowConstraintModelInstructionDiscriminator_def
        ex_argsBeet_def ex_accounts_def SystemProgram_programId_def Let_def)

end
